theory Spec2Isabelle
  imports Main
begin

section \<open>The exception taxonomy of \<^verbatim>\<open>beartype.roar._roarexc\<close>\<close>

text \<open>
  Every \<^verbatim>\<open>class\<close> statement of the module is one constructor. A private class
  \<^verbatim>\<open>_BeartypeX\<close> is written \<open>P_BeartypeX\<close>, since an identifier cannot start with
  an underscore; \<open>exc_name\<close> gives the Python name back.
\<close>

datatype exc_class =
    BeartypeException
  | BeartypeCaveException
  | BeartypeCaveNoneTypeOrException
  | BeartypeCaveNoneTypeOrKeyException
  | BeartypeCaveNoneTypeOrMutabilityException
  | BeartypeConfException
  | BeartypeDecorException
  | BeartypeDecorWrappeeException
  | BeartypeDecorWrapperException
  | BeartypeDecorHintException
  | BeartypeDecorHintForwardRefException
  | BeartypeDecorHintTypeException
  | BeartypeDecorHintNonpepException
  | BeartypeDecorHintNonpepNumpyException
  | BeartypeDecorHintPepException
  | BeartypeDecorHintPepSignException
  | BeartypeDecorHintPepUnsupportedException
  | BeartypeDecorHintPep3119Exception
  | BeartypeDecorHintPep484Exception
  | BeartypeDecorHintPep484585Exception
  | BeartypeDecorHintPep544Exception
  | BeartypeDecorHintPep557Exception
  | BeartypeDecorHintPep585Exception
  | BeartypeDecorHintPep586Exception
  | BeartypeDecorHintPep593Exception
  | BeartypeDecorParamException
  | BeartypeDecorParamNameException
  | BeartypeDecorPepException
  | BeartypeDecorHintPep563Exception
  | BeartypeCallException
  | BeartypeCallUnavailableTypeException
  | BeartypeCallHintException
  | BeartypeCallHintForwardRefException
  | BeartypeCallHintViolation
  | BeartypeCallHintParamViolation
  | BeartypeCallHintReturnViolation
  | BeartypeAbbyHintViolation
  | BeartypeClawException
  | BeartypeClawRegistrationException
  | BeartypeValeException
  | BeartypeValeSubscriptionException
  | P_BeartypeDecorBeartypistryException
  | P_BeartypeUtilException
  | P_BeartypeUtilCallableException
  | P_BeartypeUtilMappingException
  | P_BeartypeUtilModuleException
  | P_BeartypeUtilPathException
  | P_BeartypeUtilPythonException
  | P_BeartypeUtilTextException
  | P_BeartypeUtilTypeException
  | P_BeartypeCallHintRaiseException
  | P_BeartypeCallHintPepRaiseException
  | P_BeartypeCallHintPepRaiseDesynchronizationException
  | P_BeartypeUtilCachedException
  | P_BeartypeUtilCallableCachedException
  | P_BeartypeUtilCacheLruException
  | P_BeartypeUtilCachedKeyPoolException
  | P_BeartypeUtilCachedFixedListException
  | P_BeartypeUtilCachedObjectTypedException
  | P_BeartypeUtilObjectException
  | P_BeartypeUtilObjectNameException


text \<open>
  A base named in a \<^verbatim>\<open>class\<close> statement is either the builtin \<^verbatim>\<open>Exception\<close> or a
  class of this module.
\<close>

datatype base_ref = PyException | Roar exc_class

text \<open>The \<^verbatim>\<open>__name__\<close> of each class.\<close>

primrec exc_name :: "exc_class \<Rightarrow> string" where
  "exc_name BeartypeException = ''BeartypeException''"
| "exc_name BeartypeCaveException = ''BeartypeCaveException''"
| "exc_name BeartypeCaveNoneTypeOrException = ''BeartypeCaveNoneTypeOrException''"
| "exc_name BeartypeCaveNoneTypeOrKeyException = ''BeartypeCaveNoneTypeOrKeyException''"
| "exc_name BeartypeCaveNoneTypeOrMutabilityException = ''BeartypeCaveNoneTypeOrMutabilityException''"
| "exc_name BeartypeConfException = ''BeartypeConfException''"
| "exc_name BeartypeDecorException = ''BeartypeDecorException''"
| "exc_name BeartypeDecorWrappeeException = ''BeartypeDecorWrappeeException''"
| "exc_name BeartypeDecorWrapperException = ''BeartypeDecorWrapperException''"
| "exc_name BeartypeDecorHintException = ''BeartypeDecorHintException''"
| "exc_name BeartypeDecorHintForwardRefException = ''BeartypeDecorHintForwardRefException''"
| "exc_name BeartypeDecorHintTypeException = ''BeartypeDecorHintTypeException''"
| "exc_name BeartypeDecorHintNonpepException = ''BeartypeDecorHintNonpepException''"
| "exc_name BeartypeDecorHintNonpepNumpyException = ''BeartypeDecorHintNonpepNumpyException''"
| "exc_name BeartypeDecorHintPepException = ''BeartypeDecorHintPepException''"
| "exc_name BeartypeDecorHintPepSignException = ''BeartypeDecorHintPepSignException''"
| "exc_name BeartypeDecorHintPepUnsupportedException = ''BeartypeDecorHintPepUnsupportedException''"
| "exc_name BeartypeDecorHintPep3119Exception = ''BeartypeDecorHintPep3119Exception''"
| "exc_name BeartypeDecorHintPep484Exception = ''BeartypeDecorHintPep484Exception''"
| "exc_name BeartypeDecorHintPep484585Exception = ''BeartypeDecorHintPep484585Exception''"
| "exc_name BeartypeDecorHintPep544Exception = ''BeartypeDecorHintPep544Exception''"
| "exc_name BeartypeDecorHintPep557Exception = ''BeartypeDecorHintPep557Exception''"
| "exc_name BeartypeDecorHintPep585Exception = ''BeartypeDecorHintPep585Exception''"
| "exc_name BeartypeDecorHintPep586Exception = ''BeartypeDecorHintPep586Exception''"
| "exc_name BeartypeDecorHintPep593Exception = ''BeartypeDecorHintPep593Exception''"
| "exc_name BeartypeDecorParamException = ''BeartypeDecorParamException''"
| "exc_name BeartypeDecorParamNameException = ''BeartypeDecorParamNameException''"
| "exc_name BeartypeDecorPepException = ''BeartypeDecorPepException''"
| "exc_name BeartypeDecorHintPep563Exception = ''BeartypeDecorHintPep563Exception''"
| "exc_name BeartypeCallException = ''BeartypeCallException''"
| "exc_name BeartypeCallUnavailableTypeException = ''BeartypeCallUnavailableTypeException''"
| "exc_name BeartypeCallHintException = ''BeartypeCallHintException''"
| "exc_name BeartypeCallHintForwardRefException = ''BeartypeCallHintForwardRefException''"
| "exc_name BeartypeCallHintViolation = ''BeartypeCallHintViolation''"
| "exc_name BeartypeCallHintParamViolation = ''BeartypeCallHintParamViolation''"
| "exc_name BeartypeCallHintReturnViolation = ''BeartypeCallHintReturnViolation''"
| "exc_name BeartypeAbbyHintViolation = ''BeartypeAbbyHintViolation''"
| "exc_name BeartypeClawException = ''BeartypeClawException''"
| "exc_name BeartypeClawRegistrationException = ''BeartypeClawRegistrationException''"
| "exc_name BeartypeValeException = ''BeartypeValeException''"
| "exc_name BeartypeValeSubscriptionException = ''BeartypeValeSubscriptionException''"
| "exc_name P_BeartypeDecorBeartypistryException = ''_BeartypeDecorBeartypistryException''"
| "exc_name P_BeartypeUtilException = ''_BeartypeUtilException''"
| "exc_name P_BeartypeUtilCallableException = ''_BeartypeUtilCallableException''"
| "exc_name P_BeartypeUtilMappingException = ''_BeartypeUtilMappingException''"
| "exc_name P_BeartypeUtilModuleException = ''_BeartypeUtilModuleException''"
| "exc_name P_BeartypeUtilPathException = ''_BeartypeUtilPathException''"
| "exc_name P_BeartypeUtilPythonException = ''_BeartypeUtilPythonException''"
| "exc_name P_BeartypeUtilTextException = ''_BeartypeUtilTextException''"
| "exc_name P_BeartypeUtilTypeException = ''_BeartypeUtilTypeException''"
| "exc_name P_BeartypeCallHintRaiseException = ''_BeartypeCallHintRaiseException''"
| "exc_name P_BeartypeCallHintPepRaiseException = ''_BeartypeCallHintPepRaiseException''"
| "exc_name P_BeartypeCallHintPepRaiseDesynchronizationException = ''_BeartypeCallHintPepRaiseDesynchronizationException''"
| "exc_name P_BeartypeUtilCachedException = ''_BeartypeUtilCachedException''"
| "exc_name P_BeartypeUtilCallableCachedException = ''_BeartypeUtilCallableCachedException''"
| "exc_name P_BeartypeUtilCacheLruException = ''_BeartypeUtilCacheLruException''"
| "exc_name P_BeartypeUtilCachedKeyPoolException = ''_BeartypeUtilCachedKeyPoolException''"
| "exc_name P_BeartypeUtilCachedFixedListException = ''_BeartypeUtilCachedFixedListException''"
| "exc_name P_BeartypeUtilCachedObjectTypedException = ''_BeartypeUtilCachedObjectTypedException''"
| "exc_name P_BeartypeUtilObjectException = ''_BeartypeUtilObjectException''"
| "exc_name P_BeartypeUtilObjectNameException = ''_BeartypeUtilObjectNameException''"

text \<open>The bases listed in each \<^verbatim>\<open>class\<close> statement, in the order of the module.\<close>

primrec bases :: "exc_class \<Rightarrow> base_ref list" where
  "bases BeartypeException = [PyException]"
| "bases BeartypeCaveException = [Roar BeartypeException]"
| "bases BeartypeCaveNoneTypeOrException = [Roar BeartypeCaveException]"
| "bases BeartypeCaveNoneTypeOrKeyException = [Roar BeartypeCaveNoneTypeOrException]"
| "bases BeartypeCaveNoneTypeOrMutabilityException = [Roar BeartypeCaveNoneTypeOrException]"
| "bases BeartypeConfException = [Roar BeartypeException]"
| "bases BeartypeDecorException = [Roar BeartypeException]"
| "bases BeartypeDecorWrappeeException = [Roar BeartypeDecorException]"
| "bases BeartypeDecorWrapperException = [Roar BeartypeDecorException]"
| "bases BeartypeDecorHintException = [Roar BeartypeDecorException]"
| "bases BeartypeDecorHintForwardRefException = [Roar BeartypeDecorHintException]"
| "bases BeartypeDecorHintTypeException = [Roar BeartypeDecorHintException]"
| "bases BeartypeDecorHintNonpepException = [Roar BeartypeDecorHintException]"
| "bases BeartypeDecorHintNonpepNumpyException = [Roar BeartypeDecorHintNonpepException]"
| "bases BeartypeDecorHintPepException = [Roar BeartypeDecorHintException]"
| "bases BeartypeDecorHintPepSignException = [Roar BeartypeDecorHintPepException]"
| "bases BeartypeDecorHintPepUnsupportedException = [Roar BeartypeDecorHintPepException]"
| "bases BeartypeDecorHintPep3119Exception = [Roar BeartypeDecorHintPepException]"
| "bases BeartypeDecorHintPep484Exception = [Roar BeartypeDecorHintPepException]"
| "bases BeartypeDecorHintPep484585Exception = [Roar BeartypeDecorHintPepException]"
| "bases BeartypeDecorHintPep544Exception = [Roar BeartypeDecorHintPepException]"
| "bases BeartypeDecorHintPep557Exception = [Roar BeartypeDecorHintPepException]"
| "bases BeartypeDecorHintPep585Exception = [Roar BeartypeDecorHintPepException]"
| "bases BeartypeDecorHintPep586Exception = [Roar BeartypeDecorHintPepException]"
| "bases BeartypeDecorHintPep593Exception = [Roar BeartypeDecorHintPepException]"
| "bases BeartypeDecorParamException = [Roar BeartypeDecorException]"
| "bases BeartypeDecorParamNameException = [Roar BeartypeDecorParamException]"
| "bases BeartypeDecorPepException = [Roar BeartypeDecorException]"
| "bases BeartypeDecorHintPep563Exception = [Roar BeartypeDecorPepException]"
| "bases BeartypeCallException = [Roar BeartypeException]"
| "bases BeartypeCallUnavailableTypeException = [Roar BeartypeCallException]"
| "bases BeartypeCallHintException = [Roar BeartypeCallException]"
| "bases BeartypeCallHintForwardRefException = [Roar BeartypeCallHintException]"
| "bases BeartypeCallHintViolation = [Roar BeartypeCallHintException]"
| "bases BeartypeCallHintParamViolation = [Roar BeartypeCallHintViolation]"
| "bases BeartypeCallHintReturnViolation = [Roar BeartypeCallHintViolation]"
| "bases BeartypeAbbyHintViolation = [Roar BeartypeCallHintViolation]"
| "bases BeartypeClawException = [Roar BeartypeException]"
| "bases BeartypeClawRegistrationException = [Roar BeartypeClawException]"
| "bases BeartypeValeException = [Roar BeartypeException]"
| "bases BeartypeValeSubscriptionException = [Roar BeartypeValeException]"
| "bases P_BeartypeDecorBeartypistryException = [Roar BeartypeDecorException]"
| "bases P_BeartypeUtilException = [Roar BeartypeException]"
| "bases P_BeartypeUtilCallableException = [Roar P_BeartypeUtilException]"
| "bases P_BeartypeUtilMappingException = [Roar P_BeartypeUtilException]"
| "bases P_BeartypeUtilModuleException = [Roar P_BeartypeUtilException]"
| "bases P_BeartypeUtilPathException = [Roar P_BeartypeUtilException]"
| "bases P_BeartypeUtilPythonException = [Roar P_BeartypeUtilException]"
| "bases P_BeartypeUtilTextException = [Roar P_BeartypeUtilException]"
| "bases P_BeartypeUtilTypeException = [Roar P_BeartypeUtilException]"
| "bases P_BeartypeCallHintRaiseException = [Roar P_BeartypeUtilException]"
| "bases P_BeartypeCallHintPepRaiseException = [Roar P_BeartypeCallHintRaiseException]"
| "bases P_BeartypeCallHintPepRaiseDesynchronizationException = [Roar P_BeartypeCallHintPepRaiseException]"
| "bases P_BeartypeUtilCachedException = [Roar P_BeartypeUtilException]"
| "bases P_BeartypeUtilCallableCachedException = [Roar P_BeartypeUtilCachedException]"
| "bases P_BeartypeUtilCacheLruException = [Roar P_BeartypeUtilCachedException]"
| "bases P_BeartypeUtilCachedKeyPoolException = [Roar P_BeartypeUtilException]"
| "bases P_BeartypeUtilCachedFixedListException = [Roar P_BeartypeUtilCachedException]"
| "bases P_BeartypeUtilCachedObjectTypedException = [Roar P_BeartypeUtilCachedException]"
| "bases P_BeartypeUtilObjectException = [Roar P_BeartypeUtilException]"
| "bases P_BeartypeUtilObjectNameException = [Roar P_BeartypeUtilObjectException]"

text \<open>
  Whether the docstring of the class opens with ``Abstract base class of all ...''.
\<close>

primrec documented_abstract :: "exc_class \<Rightarrow> bool" where
  "documented_abstract BeartypeException = True"
| "documented_abstract BeartypeCaveException = True"
| "documented_abstract BeartypeCaveNoneTypeOrException = True"
| "documented_abstract BeartypeCaveNoneTypeOrKeyException = False"
| "documented_abstract BeartypeCaveNoneTypeOrMutabilityException = False"
| "documented_abstract BeartypeConfException = False"
| "documented_abstract BeartypeDecorException = True"
| "documented_abstract BeartypeDecorWrappeeException = False"
| "documented_abstract BeartypeDecorWrapperException = False"
| "documented_abstract BeartypeDecorHintException = True"
| "documented_abstract BeartypeDecorHintForwardRefException = False"
| "documented_abstract BeartypeDecorHintTypeException = False"
| "documented_abstract BeartypeDecorHintNonpepException = False"
| "documented_abstract BeartypeDecorHintNonpepNumpyException = False"
| "documented_abstract BeartypeDecorHintPepException = True"
| "documented_abstract BeartypeDecorHintPepSignException = False"
| "documented_abstract BeartypeDecorHintPepUnsupportedException = False"
| "documented_abstract BeartypeDecorHintPep3119Exception = False"
| "documented_abstract BeartypeDecorHintPep484Exception = False"
| "documented_abstract BeartypeDecorHintPep484585Exception = False"
| "documented_abstract BeartypeDecorHintPep544Exception = False"
| "documented_abstract BeartypeDecorHintPep557Exception = False"
| "documented_abstract BeartypeDecorHintPep585Exception = False"
| "documented_abstract BeartypeDecorHintPep586Exception = False"
| "documented_abstract BeartypeDecorHintPep593Exception = False"
| "documented_abstract BeartypeDecorParamException = True"
| "documented_abstract BeartypeDecorParamNameException = False"
| "documented_abstract BeartypeDecorPepException = True"
| "documented_abstract BeartypeDecorHintPep563Exception = False"
| "documented_abstract BeartypeCallException = True"
| "documented_abstract BeartypeCallUnavailableTypeException = False"
| "documented_abstract BeartypeCallHintException = True"
| "documented_abstract BeartypeCallHintForwardRefException = False"
| "documented_abstract BeartypeCallHintViolation = True"
| "documented_abstract BeartypeCallHintParamViolation = False"
| "documented_abstract BeartypeCallHintReturnViolation = False"
| "documented_abstract BeartypeAbbyHintViolation = False"
| "documented_abstract BeartypeClawException = True"
| "documented_abstract BeartypeClawRegistrationException = False"
| "documented_abstract BeartypeValeException = True"
| "documented_abstract BeartypeValeSubscriptionException = False"
| "documented_abstract P_BeartypeDecorBeartypistryException = False"
| "documented_abstract P_BeartypeUtilException = True"
| "documented_abstract P_BeartypeUtilCallableException = False"
| "documented_abstract P_BeartypeUtilMappingException = False"
| "documented_abstract P_BeartypeUtilModuleException = False"
| "documented_abstract P_BeartypeUtilPathException = False"
| "documented_abstract P_BeartypeUtilPythonException = False"
| "documented_abstract P_BeartypeUtilTextException = False"
| "documented_abstract P_BeartypeUtilTypeException = False"
| "documented_abstract P_BeartypeCallHintRaiseException = True"
| "documented_abstract P_BeartypeCallHintPepRaiseException = False"
| "documented_abstract P_BeartypeCallHintPepRaiseDesynchronizationException = False"
| "documented_abstract P_BeartypeUtilCachedException = True"
| "documented_abstract P_BeartypeUtilCallableCachedException = False"
| "documented_abstract P_BeartypeUtilCacheLruException = False"
| "documented_abstract P_BeartypeUtilCachedKeyPoolException = False"
| "documented_abstract P_BeartypeUtilCachedFixedListException = False"
| "documented_abstract P_BeartypeUtilCachedObjectTypedException = False"
| "documented_abstract P_BeartypeUtilObjectException = True"
| "documented_abstract P_BeartypeUtilObjectNameException = False"

text \<open>The number of classes of the module strictly above a class.\<close>

primrec rank :: "exc_class \<Rightarrow> nat" where
  "rank BeartypeException = 0"
| "rank BeartypeCaveException = 1"
| "rank BeartypeCaveNoneTypeOrException = 2"
| "rank BeartypeCaveNoneTypeOrKeyException = 3"
| "rank BeartypeCaveNoneTypeOrMutabilityException = 3"
| "rank BeartypeConfException = 1"
| "rank BeartypeDecorException = 1"
| "rank BeartypeDecorWrappeeException = 2"
| "rank BeartypeDecorWrapperException = 2"
| "rank BeartypeDecorHintException = 2"
| "rank BeartypeDecorHintForwardRefException = 3"
| "rank BeartypeDecorHintTypeException = 3"
| "rank BeartypeDecorHintNonpepException = 3"
| "rank BeartypeDecorHintNonpepNumpyException = 4"
| "rank BeartypeDecorHintPepException = 3"
| "rank BeartypeDecorHintPepSignException = 4"
| "rank BeartypeDecorHintPepUnsupportedException = 4"
| "rank BeartypeDecorHintPep3119Exception = 4"
| "rank BeartypeDecorHintPep484Exception = 4"
| "rank BeartypeDecorHintPep484585Exception = 4"
| "rank BeartypeDecorHintPep544Exception = 4"
| "rank BeartypeDecorHintPep557Exception = 4"
| "rank BeartypeDecorHintPep585Exception = 4"
| "rank BeartypeDecorHintPep586Exception = 4"
| "rank BeartypeDecorHintPep593Exception = 4"
| "rank BeartypeDecorParamException = 2"
| "rank BeartypeDecorParamNameException = 3"
| "rank BeartypeDecorPepException = 2"
| "rank BeartypeDecorHintPep563Exception = 3"
| "rank BeartypeCallException = 1"
| "rank BeartypeCallUnavailableTypeException = 2"
| "rank BeartypeCallHintException = 2"
| "rank BeartypeCallHintForwardRefException = 3"
| "rank BeartypeCallHintViolation = 3"
| "rank BeartypeCallHintParamViolation = 4"
| "rank BeartypeCallHintReturnViolation = 4"
| "rank BeartypeAbbyHintViolation = 4"
| "rank BeartypeClawException = 1"
| "rank BeartypeClawRegistrationException = 2"
| "rank BeartypeValeException = 1"
| "rank BeartypeValeSubscriptionException = 2"
| "rank P_BeartypeDecorBeartypistryException = 2"
| "rank P_BeartypeUtilException = 1"
| "rank P_BeartypeUtilCallableException = 2"
| "rank P_BeartypeUtilMappingException = 2"
| "rank P_BeartypeUtilModuleException = 2"
| "rank P_BeartypeUtilPathException = 2"
| "rank P_BeartypeUtilPythonException = 2"
| "rank P_BeartypeUtilTextException = 2"
| "rank P_BeartypeUtilTypeException = 2"
| "rank P_BeartypeCallHintRaiseException = 2"
| "rank P_BeartypeCallHintPepRaiseException = 3"
| "rank P_BeartypeCallHintPepRaiseDesynchronizationException = 4"
| "rank P_BeartypeUtilCachedException = 2"
| "rank P_BeartypeUtilCallableCachedException = 3"
| "rank P_BeartypeUtilCacheLruException = 3"
| "rank P_BeartypeUtilCachedKeyPoolException = 2"
| "rank P_BeartypeUtilCachedFixedListException = 3"
| "rank P_BeartypeUtilCachedObjectTypedException = 3"
| "rank P_BeartypeUtilObjectException = 2"
| "rank P_BeartypeUtilObjectNameException = 3"

text \<open>The bases of a class that belong to the module itself.\<close>

fun roar_bases :: "base_ref list \<Rightarrow> exc_class list" where
  "roar_bases [] = []"
| "roar_bases (PyException # bs) = roar_bases bs"
| "roar_bases (Roar c # bs) = c # roar_bases bs"

definition parents :: "exc_class \<Rightarrow> exc_class list" where
  "parents c = roar_bases (bases c)"

text \<open>
  The classes of the module that \<open>c\<close> inherits from, \<open>c\<close> first: what
  \<^verbatim>\<open>issubclass\<close> walks. \<open>rank\<close>, the depth of a class below the root, is the
  termination measure.
\<close>

function superclasses :: "exc_class \<Rightarrow> exc_class list" where
  "superclasses c = c # concat (map superclasses (parents c))"
  by pat_completeness auto
termination
proof (relation "measure rank")
  show "wf (measure rank)" by simp
next
  fix c p
  assume "p \<in> set (parents c)"
  then have "rank p < rank c"
    by (cases c) (simp_all add: parents_def)
  then show "(p, c) \<in> measure rank" by simp
qed

declare superclasses.simps [simp del]

definition issubclass_exc :: "exc_class \<Rightarrow> exc_class \<Rightarrow> bool" where
  "issubclass_exc c d = (d \<in> set (superclasses c))"

subsection \<open>Instantiation\<close>

text \<open>
  The methods each class body defines, with whether the method is decorated
  \<^verbatim>\<open>@abstractmethod\<close>. Only the root defines one, \<^verbatim>\<open>__init__\<close>, and it is not
  decorated; every other body is \<^verbatim>\<open>pass\<close>.
\<close>

definition namespace :: "exc_class \<Rightarrow> (string \<times> bool) list" where
  "namespace c = (if c = BeartypeException then [(''__init__'', False)] else [])"

text \<open>Attribute lookup along the superclasses: the first class that defines the name wins.\<close>

fun lookup_method :: "exc_class list \<Rightarrow> string \<Rightarrow> bool option" where
  "lookup_method [] n = None"
| "lookup_method (c # cs) n =
     (case map_of (namespace c) n of Some a \<Rightarrow> Some a | None \<Rightarrow> lookup_method cs n)"

text \<open>
  What \<^verbatim>\<open>ABCMeta\<close> stores in \<^verbatim>\<open>__abstractmethods__\<close>: the names visible in the class
  whose definition is abstract.
\<close>

definition abstractmethods :: "exc_class \<Rightarrow> string list" where
  "abstractmethods c =
     filter (\<lambda>n. lookup_method (superclasses c) n = Some True)
       (remdups (map fst (concat (map namespace (superclasses c)))))"

text \<open>Exceptions of the model: builtin ones, and instances of the classes of the module.\<close>

datatype pyerr =
    TypeError string
  | AttributeError string
  | AssertionError string
  | RoarError exc_class string

text \<open>
  The module name each class shows in \<^verbatim>\<open>__module__\<close>; \<^verbatim>\<open>__init__\<close> overwrites it.
\<close>

type_synonym roar_state = "exc_class \<Rightarrow> string"

definition roar_state0 :: roar_state where
  "roar_state0 = (\<lambda>c. ''beartype.roar._roarexc'')"

record exc_instance =
  exc_cls :: exc_class
  exc_args :: "string list"

text \<open>
  \<^verbatim>\<open>BeartypeException.__init__(self, message)\<close>, which every class of the module
  inherits: the message goes to \<^verbatim>\<open>Exception.__init__\<close>, then the module name of the
  instance's class is set to \<^verbatim>\<open>'beartype.roar'\<close>.
\<close>

definition exc_init :: "roar_state \<Rightarrow> exc_class \<Rightarrow> string \<Rightarrow> exc_instance \<times> roar_state" where
  "exc_init st c message =
     (\<lparr>exc_cls = c, exc_args = [message]\<rparr>, st(c := ''beartype.roar''))"

text \<open>
  The call \<^verbatim>\<open>c(message)\<close>. The metaclass of the root is \<^verbatim>\<open>ABCMeta\<close>, so
  \<^verbatim>\<open>object.__new__\<close> refuses a class whose \<^verbatim>\<open>__abstractmethods__\<close> is not empty
  with a \<^verbatim>\<open>TypeError\<close>; otherwise \<^verbatim>\<open>__init__\<close> runs.
\<close>

definition instantiate :: "roar_state \<Rightarrow> exc_class \<Rightarrow> string \<Rightarrow> pyerr + (exc_instance \<times> roar_state)" where
  "instantiate st c message =
     (if abstractmethods c \<noteq> []
      then Inl (TypeError (''Can't instantiate abstract class '' @ exc_name c))
      else Inr (exc_init st c message))"

section \<open>Python objects and the builtins the utilities call\<close>

text \<open>
  An object is a class or an instance of one. \<open>PyClass\<close> stands for the objects whose
  type derives from \<^verbatim>\<open>type\<close>, known by their \<^verbatim>\<open>__name__\<close>. An instance carries its
  class, an identity, its \<^verbatim>\<open>__name__\<close> attribute when it has one (a function or a
  module does, an integer does not), the class that its \<^verbatim>\<open>__class__\<close> attribute
  reports when that is another class than its type (a proxy, or a mock built with a
  \<^verbatim>\<open>spec\<close>), and the classes in its \<^verbatim>\<open>__bases__\<close> attribute when it has such a
  tuple.
\<close>

type_synonym cname = string

datatype pyobj =
    PyClass cname
  | PyInstance cname nat "string option" "cname option" "cname list option"

text \<open>
  What the interpreter knows of a class: its method resolution order (the class itself
  first), its metaclass, and the \<^verbatim>\<open>__subclasscheck__\<close> of its metaclass when the
  metaclass overrides the one of \<^verbatim>\<open>type\<close>. Such an override decides
  \<^verbatim>\<open>issubclass(obj, cls)\<close> alone, and may raise: most classes of \<^verbatim>\<open>typing\<close> do so
  unconditionally, as the docstring of \<^verbatim>\<open>get_hint_type_origin\<close> records.
\<close>

record pyclass =
  mro :: "cname list"
  metaclass :: cname
  subclasscheck :: "(pyobj \<Rightarrow> pyerr + bool) option"

text \<open>
  The interpreter: its classes, and the builtins \<^verbatim>\<open>hash\<close> and \<^verbatim>\<open>repr\<close>, which run
  the \<^verbatim>\<open>__hash__\<close> and \<^verbatim>\<open>__repr__\<close> of the class of their argument. \<^verbatim>\<open>hash\<close>
  raises on an unhashable object (a \<^verbatim>\<open>TypeError\<close>, or whatever \<^verbatim>\<open>__hash__\<close>
  raises); \<^verbatim>\<open>repr\<close> is taken to return.
\<close>

record world =
  classes :: "cname \<Rightarrow> pyclass"
  hash_builtin :: "pyobj \<Rightarrow> pyerr + int"
  repr_builtin :: "pyobj \<Rightarrow> string"

text \<open>
  \<^verbatim>\<open>isinstance(obj, type)\<close>. It holds of a class, and also of an instance whose
  \<^verbatim>\<open>__class__\<close> attribute reports a class that derives from \<^verbatim>\<open>type\<close>: the builtin
  consults \<^verbatim>\<open>__class__\<close> when the type of the object itself does not qualify.
\<close>

fun isinstance_type :: "world \<Rightarrow> pyobj \<Rightarrow> bool" where
  "isinstance_type w (PyClass c) = True"
| "isinstance_type w (PyInstance c i n None bs) = False"
| "isinstance_type w (PyInstance c i n (Some k) bs) = (''type'' \<in> set (mro (classes w k)))"


text \<open>
  The \<^verbatim>\<open>__subclasscheck__\<close> of \<^verbatim>\<open>type\<close>. Between two classes it is a lookup in
  the method resolution order of the first. Otherwise an argument without a tuple of
  bases is a \<^verbatim>\<open>TypeError\<close>, the first argument being looked at first, whatever
  \<^verbatim>\<open>__class__\<close> reports; and with such tuples the second argument is searched for
  by identity among the first and the classes above its bases.
\<close>

fun recursive_issubclass :: "world \<Rightarrow> pyobj \<Rightarrow> pyobj \<Rightarrow> pyerr + bool" where
  "recursive_issubclass w (PyClass c) (PyClass d) = Inr (d \<in> set (mro (classes w c)))"
| "recursive_issubclass w (PyInstance c i n k None) cls =
     Inl (TypeError ''issubclass() arg 1 must be a class'')"
| "recursive_issubclass w (PyClass c) (PyInstance d j m l None) =
     Inl (TypeError ''issubclass() arg 2 must be a class, a tuple of classes, or a union'')"
| "recursive_issubclass w (PyInstance c i n k (Some bs)) (PyInstance d j m l None) =
     Inl (TypeError ''issubclass() arg 2 must be a class, a tuple of classes, or a union'')"
| "recursive_issubclass w (PyClass c) (PyInstance d j m l (Some ds)) = Inr False"
| "recursive_issubclass w (PyInstance c i n k (Some bs)) (PyClass d) =
     Inr (list_ex (\<lambda>b. d \<in> set (mro (classes w b))) bs)"
| "recursive_issubclass w (PyInstance c i n k (Some bs)) (PyInstance d j m l (Some ds)) =
     Inr (PyInstance c i n k (Some bs) = PyInstance d j m l (Some ds))"

text \<open>
  \<^verbatim>\<open>issubclass(obj, cls)\<close>: the \<^verbatim>\<open>__subclasscheck__\<close> of the metaclass of \<open>cls\<close>
  decides when the metaclass overrides it, the one of \<^verbatim>\<open>type\<close> otherwise.
\<close>

fun issubclass_builtin :: "world \<Rightarrow> pyobj \<Rightarrow> pyobj \<Rightarrow> pyerr + bool" where
  "issubclass_builtin w obj (PyClass d) =
     (case subclasscheck (classes w d) of
        Some check \<Rightarrow> check obj
      | None \<Rightarrow> recursive_issubclass w obj (PyClass d))"
| "issubclass_builtin w obj (PyInstance d j m l ds) =
     recursive_issubclass w obj (PyInstance d j m l ds)"

text \<open>
  The attribute \<^verbatim>\<open>obj.__name__\<close>: every class has one, an instance only when it
  defines it; a missing attribute is an \<^verbatim>\<open>AttributeError\<close>.
\<close>

fun getattr_name :: "pyobj \<Rightarrow> pyerr + string" where
  "getattr_name (PyClass c) = Inr c"
| "getattr_name (PyInstance c i None k bs) =
     Inl (AttributeError (c @ '' object has no attribute __name__''))"
| "getattr_name (PyInstance c i (Some n) k bs) = Inr n"

text \<open>The builtin class \<^verbatim>\<open>object\<close>.\<close>

definition object_builtin :: pyobj where
  "object_builtin = PyClass ''object''"


section \<open>\<^verbatim>\<open>beartype._util.utilobject\<close>\<close>


text \<open>
  \<^verbatim>\<open>is_object_subclass(obj, cls)\<close>: the assertion on \<open>cls\<close>, then
  \<^verbatim>\<open>isinstance(obj, type) and issubclass(obj, cls)\<close>, where \<^verbatim>\<open>and\<close> evaluates its
  right operand only when the left one is true.
\<close>

definition is_object_subclass :: "world \<Rightarrow> pyobj \<Rightarrow> pyobj \<Rightarrow> pyerr + bool" where
  "is_object_subclass w obj cls =
     (if \<not> isinstance_type w cls
      then Inl (AssertionError (repr_builtin w cls @ '' not class.''))
      else if \<not> isinstance_type w obj then Inr False
      else issubclass_builtin w obj cls)"

text \<open>
  \<^verbatim>\<open>get_object_name(obj)\<close>. The body reads \<^verbatim>\<open>object.__name__\<close> and passes
  \<^verbatim>\<open>object\<close>, the builtin class, to the module-name getter; the parameter \<open>obj\<close> is not
  used. The getter \<^verbatim>\<open>get_object_class_module_name_or_none\<close> lives in
  \<^verbatim>\<open>beartype._util.py.utilpymodule\<close> and is a parameter here.
\<close>

definition get_object_name :: "(pyobj \<Rightarrow> string option) \<Rightarrow> pyobj \<Rightarrow> pyerr + string" where
  "get_object_name get_object_class_module_name_or_none obj =
     (case getattr_name object_builtin of
        Inl e \<Rightarrow> Inl e
      | Inr object_basename \<Rightarrow>
          (case get_object_class_module_name_or_none object_builtin of
             Some object_module_name \<Rightarrow> Inr (object_module_name @ ''.'' @ object_basename)
           | None \<Rightarrow> Inr object_basename))"


section \<open>\<^verbatim>\<open>beartype._util.hint.utilhintget\<close>\<close>





section \<open>Checking values against hints\<close>

text \<open>
  Modelled from the spec: the wrapper that \<^verbatim>\<open>beartype.beartype\<close> generates, its
  checks and the raiser of its violations are not among the sources; only the unit test
  \<^verbatim>\<open>test_beartype\<close> that calls them is. What follows renders sections 3, 4.2, 4.4,
  4.5 and 6 of the specification.
\<close>

text \<open>
  Modelled from the spec: the values checked (``piths''). Objects live in a heap and are
  known by their address, so that \<^verbatim>\<open>is\<close> is equality of addresses; a list holds the
  addresses of its items and a dictionary those of its keys and values, and either may
  contain itself.
\<close>

type_synonym addr = nat

datatype pyvalue =
    VInt int
  | VStr string
  | VList "addr list"
  | VDict "(addr \<times> addr) list"
  | VInstance cname

type_synonym heap = "addr \<Rightarrow> pyvalue"

text \<open>Modelled from the spec: the values a literal set may list.\<close>

datatype literal = LInt int | LStr string

text \<open>
  Modelled from the spec: a hint (section 3) is a class, a union of alternatives, a
  sequence class parametrized by the hint of its items, a mapping class parametrized by
  the hints of its keys and values, a set of literals, a base hint annotated with a named
  predicate over one value, or a forward reference to a class by name. A predicate reads
  the heap and may raise.
\<close>

datatype hint =
    HClass cname
  | HUnion "hint list"
  | HSeq cname hint
  | HMap cname hint hint
  | HLiteral "literal list"
  | HAnnotated hint string "heap \<Rightarrow> addr \<Rightarrow> pyerr + bool"
  | HForwardRef string


text \<open>
  Modelled from the spec: the origin resolver of section 4.2. A class is its own origin, a
  parametrized generic has its unparametrized class, the other signs have none.
\<close>

fun resolve_origin :: "hint \<Rightarrow> cname option" where
  "resolve_origin (HClass c) = Some c"
| "resolve_origin (HSeq c h) = Some c"
| "resolve_origin (HMap c hk hv) = Some c"
| "resolve_origin (HUnion hs) = None"
| "resolve_origin (HLiteral ls) = None"
| "resolve_origin (HAnnotated base name pred) = None"
| "resolve_origin (HForwardRef name) = None"

text \<open>Modelled from the spec: the runtime class of a value.\<close>

fun class_of :: "pyvalue \<Rightarrow> cname" where
  "class_of (VInt i) = ''int''"
| "class_of (VStr s) = ''str''"
| "class_of (VList xs) = ''list''"
| "class_of (VDict es) = ''dict''"
| "class_of (VInstance c) = c"

text \<open>
  Modelled from the spec: the shallow membership test of a value against an origin type
  (section 4.4, sign class).
\<close>

definition isinstance_val :: "world \<Rightarrow> heap \<Rightarrow> addr \<Rightarrow> cname \<Rightarrow> bool" where
  "isinstance_val w hp a c = (c \<in> set (mro (classes w (class_of (hp a)))))"

text \<open>Modelled from the spec: the equality test of a value against the literals of a set.\<close>

fun literal_eq :: "pyvalue \<Rightarrow> literal \<Rightarrow> bool" where
  "literal_eq (VInt i) (LInt j) = (i = j)"
| "literal_eq (VStr s) (LStr t) = (s = t)"
| "literal_eq v l = False"

definition in_literals :: "pyvalue \<Rightarrow> literal list \<Rightarrow> bool" where
  "in_literals v ls = list_ex (literal_eq v) ls"









text \<open>
  Modelled from the spec: a culprit is the blamed object itself, or its representation
  when the object cannot be referenced weakly.
\<close>

datatype culprit = CulpritObject addr | CulpritRepr string


text \<open>Modelled from the spec: the violation record of section 3.\<close>

record violation =
  viol_hint :: hint
  viol_pith :: addr
  culprits :: "culprit list"
  viol_message :: string

text \<open>
  Modelled from the spec: what a checked call raises (sections 4.4, 4.6 and 7): a
  violation of one of the call-time kinds, another exception of the taxonomy, or the
  exception that a predicate raised, passed on as it is.
\<close>

datatype call_error =
    HintViolation exc_class violation
  | RoarRaised exc_class string
  | ValidatorRaised pyerr

text \<open>
  Modelled from the spec: the configuration of section 6 together with what a check reads
  besides the value: the namespace that resolves forward references, the interpreter,
  and the random numbers drawn, one for each place in the walk of the hint.
\<close>

datatype strictness = Shallow | DeepSampled | DeepExhaustive

record checker =
  strictness :: strictness
  sample_size :: nat
  ref_namespace :: "string \<rightharpoonup> pyobj"
  interp :: world
  draws :: "nat list \<Rightarrow> nat"

text \<open>
  Modelled from the spec: the items of a container that a check looks at: none when
  shallow, all when exhaustive, and otherwise \<open>sample_size\<close> of them, each at a random
  position.
\<close>

definition selected :: "checker \<Rightarrow> nat list \<Rightarrow> addr list \<Rightarrow> addr list" where
  "selected ck p xs =
     (case strictness ck of
        Shallow \<Rightarrow> []
      | DeepExhaustive \<Rightarrow> xs
      | DeepSampled \<Rightarrow>
          (if xs = [] then []
           else map (\<lambda>j. xs ! (draws ck (p @ [j]) mod length xs)) [0..<sample_size ck]))"

text \<open>Modelled from the spec: the origin test of the base of an annotated hint, if any.\<close>

definition origin_ok :: "world \<Rightarrow> heap \<Rightarrow> hint \<Rightarrow> addr \<Rightarrow> bool" where
  "origin_ok w hp base a =
     (case resolve_origin base of
        Some c \<Rightarrow> isinstance_val w hp a c
      | None \<Rightarrow> True)"

definition forward_ref_error :: "string \<Rightarrow> call_error" where
  "forward_ref_error name =
     RoarRaised BeartypeCallHintForwardRefException
       (''forward reference '' @ name @ '' does not resolve to a class'')"

text \<open>
  Modelled from the spec: the compiled check of section 4.4, at the place \<open>p\<close> of the
  walk. A union tries its alternatives in order and stops at the first that passes; a
  parametrized generic tests the origin type and then the selected items, keys and
  values apart; an annotated hint tests the origin of its base and then calls the
  predicate, whose exception is passed on; a forward reference is resolved in the
  namespace and fails when the name yields no class (the cache of resolved references
  is left out, as it changes no result). \<open>check_any\<close> is the loop over the
  alternatives of a union, \<open>check_each\<close> the loop over the selected items.
\<close>

fun check :: "checker \<Rightarrow> heap \<Rightarrow> nat list \<Rightarrow> hint \<Rightarrow> addr \<Rightarrow> call_error + bool"
  and check_any ::
    "checker \<Rightarrow> heap \<Rightarrow> nat list \<Rightarrow> nat \<Rightarrow> hint list \<Rightarrow> addr \<Rightarrow> call_error + bool"
  and check_each ::
    "checker \<Rightarrow> heap \<Rightarrow> nat list \<Rightarrow> nat \<Rightarrow> hint \<Rightarrow> addr list \<Rightarrow> call_error + bool"
where
  "check ck hp p (HClass c) a = Inr (isinstance_val (interp ck) hp a c)"
| "check ck hp p (HUnion hs) a = check_any ck hp p 0 hs a"
| "check ck hp p (HSeq c h) a =
     (if \<not> isinstance_val (interp ck) hp a c then Inr False
      else (case hp a of
              VList xs \<Rightarrow> check_each ck hp p 0 h (selected ck p xs)
            | _ \<Rightarrow> Inr True))"
| "check ck hp p (HMap c hk hv) a =
     (if \<not> isinstance_val (interp ck) hp a c then Inr False
      else (case hp a of
              VDict es \<Rightarrow>
                (case check_each ck hp (p @ [0]) 0 hk (selected ck (p @ [0]) (map fst es)) of
                   Inl e \<Rightarrow> Inl e
                 | Inr False \<Rightarrow> Inr False
                 | Inr True \<Rightarrow>
                     check_each ck hp (p @ [1]) 0 hv (selected ck (p @ [1]) (map snd es)))
            | _ \<Rightarrow> Inr True))"
| "check ck hp p (HLiteral ls) a = Inr (in_literals (hp a) ls)"
| "check ck hp p (HAnnotated base name pred) a =
     (if \<not> origin_ok (interp ck) hp base a then Inr False
      else (case pred hp a of
              Inl e \<Rightarrow> Inl (ValidatorRaised e)
            | Inr b \<Rightarrow> Inr b))"
| "check ck hp p (HForwardRef name) a =
     (case ref_namespace ck name of
        Some (PyClass c) \<Rightarrow> Inr (isinstance_val (interp ck) hp a c)
      | Some (PyInstance c i n k bs) \<Rightarrow> Inl (forward_ref_error name)
      | None \<Rightarrow> Inl (forward_ref_error name))"
| "check_any ck hp p i [] a = Inr False"
| "check_any ck hp p i (h # hs) a =
     (case check ck hp (p @ [i]) h a of
        Inl e \<Rightarrow> Inl e
      | Inr True \<Rightarrow> Inr True
      | Inr False \<Rightarrow> check_any ck hp p (Suc i) hs a)"
| "check_each ck hp p j h [] = Inr True"
| "check_each ck hp p j h (x # xs) =
     (case check ck hp (p @ [j]) h x of
        Inl e \<Rightarrow> Inl e
      | Inr False \<Rightarrow> Inr False
      | Inr True \<Rightarrow> check_each ck hp p (Suc j) h xs)"









section \<open>Example objects\<close>

text \<open>
  A small interpreter state for concrete runs. \<^verbatim>\<open>Generic\<close> stands for a class of
  \<^verbatim>\<open>typing\<close> whose metaclass overrides \<^verbatim>\<open>__subclasscheck__\<close> to raise;
  \<^verbatim>\<open>bool\<close> derives from \<^verbatim>\<open>int\<close>; every other class derives from
  \<^verbatim>\<open>object\<close> alone. An instance of \<^verbatim>\<open>_AnnotatedAlias\<close> is unhashable, every
  other object hashable.
\<close>

definition raising_subclasscheck :: "pyobj \<Rightarrow> pyerr + bool" where
  "raising_subclasscheck obj =
     Inl (TypeError ''Parameterized generics cannot be used with class or instance checks'')"

definition example_classes :: "cname \<Rightarrow> pyclass" where
  "example_classes c =
     (if c = ''Generic''
      then \<lparr>mro = [''Generic'', ''object''], metaclass = ''GenericMeta'',
            subclasscheck = Some raising_subclasscheck\<rparr>
      else if c = ''bool''
      then \<lparr>mro = [''bool'', ''int'', ''object''], metaclass = ''type'', subclasscheck = None\<rparr>
      else \<lparr>mro = [c, ''object''], metaclass = ''type'', subclasscheck = None\<rparr>)"

definition example_hash :: "pyobj \<Rightarrow> pyerr + int" where
  "example_hash obj =
     (case obj of
        PyClass c \<Rightarrow> Inr (int (length c))
      | PyInstance c i n k bs \<Rightarrow>
          (if c = ''_AnnotatedAlias'' then Inl (TypeError ''unhashable type: list'')
           else Inr (int i)))"

definition example_repr :: "pyobj \<Rightarrow> string" where
  "example_repr obj =
     (case obj of
        PyClass c \<Rightarrow> ''<class '' @ [CHR 0x27] @ c @ [CHR 0x27] @ ''>''
      | PyInstance c i n k bs \<Rightarrow> ''<'' @ c @ '' object>'')"

definition example_world :: world where
  "example_world =
     \<lparr>classes = example_classes, hash_builtin = example_hash, repr_builtin = example_repr\<rparr>"

text \<open>
  An object whose \<^verbatim>\<open>__class__\<close> reports \<^verbatim>\<open>type\<close> although it is an instance of
  \<^verbatim>\<open>Mock\<close>, another one that supplies a tuple of bases as well, and an unhashable
  hint of \<^verbatim>\<open>typing\<close>.
\<close>

definition mock_type :: pyobj where
  "mock_type = PyInstance ''Mock'' 5 None (Some ''type'') None"

definition fake_class :: pyobj where
  "fake_class = PyInstance ''Fake'' 6 None (Some ''type'') (Some [''bool''])"









section \<open>Properties of the exception taxonomy\<close>

lemma superclasses_eval:
  "superclasses BeartypeException =
     [BeartypeException]"
  "superclasses BeartypeCaveException =
     [BeartypeCaveException,
      BeartypeException]"
  "superclasses BeartypeCaveNoneTypeOrException =
     [BeartypeCaveNoneTypeOrException,
      BeartypeCaveException,
      BeartypeException]"
  "superclasses BeartypeCaveNoneTypeOrKeyException =
     [BeartypeCaveNoneTypeOrKeyException,
      BeartypeCaveNoneTypeOrException,
      BeartypeCaveException,
      BeartypeException]"
  "superclasses BeartypeCaveNoneTypeOrMutabilityException =
     [BeartypeCaveNoneTypeOrMutabilityException,
      BeartypeCaveNoneTypeOrException,
      BeartypeCaveException,
      BeartypeException]"
  "superclasses BeartypeConfException =
     [BeartypeConfException,
      BeartypeException]"
  "superclasses BeartypeDecorException =
     [BeartypeDecorException,
      BeartypeException]"
  "superclasses BeartypeDecorWrappeeException =
     [BeartypeDecorWrappeeException,
      BeartypeDecorException,
      BeartypeException]"
  "superclasses BeartypeDecorWrapperException =
     [BeartypeDecorWrapperException,
      BeartypeDecorException,
      BeartypeException]"
  "superclasses BeartypeDecorHintException =
     [BeartypeDecorHintException,
      BeartypeDecorException,
      BeartypeException]"
  "superclasses BeartypeDecorHintForwardRefException =
     [BeartypeDecorHintForwardRefException,
      BeartypeDecorHintException,
      BeartypeDecorException,
      BeartypeException]"
  "superclasses BeartypeDecorHintTypeException =
     [BeartypeDecorHintTypeException,
      BeartypeDecorHintException,
      BeartypeDecorException,
      BeartypeException]"
  "superclasses BeartypeDecorHintNonpepException =
     [BeartypeDecorHintNonpepException,
      BeartypeDecorHintException,
      BeartypeDecorException,
      BeartypeException]"
  "superclasses BeartypeDecorHintNonpepNumpyException =
     [BeartypeDecorHintNonpepNumpyException,
      BeartypeDecorHintNonpepException,
      BeartypeDecorHintException,
      BeartypeDecorException,
      BeartypeException]"
  "superclasses BeartypeDecorHintPepException =
     [BeartypeDecorHintPepException,
      BeartypeDecorHintException,
      BeartypeDecorException,
      BeartypeException]"
  "superclasses BeartypeDecorHintPepSignException =
     [BeartypeDecorHintPepSignException,
      BeartypeDecorHintPepException,
      BeartypeDecorHintException,
      BeartypeDecorException,
      BeartypeException]"
  "superclasses BeartypeDecorHintPepUnsupportedException =
     [BeartypeDecorHintPepUnsupportedException,
      BeartypeDecorHintPepException,
      BeartypeDecorHintException,
      BeartypeDecorException,
      BeartypeException]"
  "superclasses BeartypeDecorHintPep3119Exception =
     [BeartypeDecorHintPep3119Exception,
      BeartypeDecorHintPepException,
      BeartypeDecorHintException,
      BeartypeDecorException,
      BeartypeException]"
  "superclasses BeartypeDecorHintPep484Exception =
     [BeartypeDecorHintPep484Exception,
      BeartypeDecorHintPepException,
      BeartypeDecorHintException,
      BeartypeDecorException,
      BeartypeException]"
  "superclasses BeartypeDecorHintPep484585Exception =
     [BeartypeDecorHintPep484585Exception,
      BeartypeDecorHintPepException,
      BeartypeDecorHintException,
      BeartypeDecorException,
      BeartypeException]"
  "superclasses BeartypeDecorHintPep544Exception =
     [BeartypeDecorHintPep544Exception,
      BeartypeDecorHintPepException,
      BeartypeDecorHintException,
      BeartypeDecorException,
      BeartypeException]"
  "superclasses BeartypeDecorHintPep557Exception =
     [BeartypeDecorHintPep557Exception,
      BeartypeDecorHintPepException,
      BeartypeDecorHintException,
      BeartypeDecorException,
      BeartypeException]"
  "superclasses BeartypeDecorHintPep585Exception =
     [BeartypeDecorHintPep585Exception,
      BeartypeDecorHintPepException,
      BeartypeDecorHintException,
      BeartypeDecorException,
      BeartypeException]"
  "superclasses BeartypeDecorHintPep586Exception =
     [BeartypeDecorHintPep586Exception,
      BeartypeDecorHintPepException,
      BeartypeDecorHintException,
      BeartypeDecorException,
      BeartypeException]"
  "superclasses BeartypeDecorHintPep593Exception =
     [BeartypeDecorHintPep593Exception,
      BeartypeDecorHintPepException,
      BeartypeDecorHintException,
      BeartypeDecorException,
      BeartypeException]"
  "superclasses BeartypeDecorParamException =
     [BeartypeDecorParamException,
      BeartypeDecorException,
      BeartypeException]"
  "superclasses BeartypeDecorParamNameException =
     [BeartypeDecorParamNameException,
      BeartypeDecorParamException,
      BeartypeDecorException,
      BeartypeException]"
  "superclasses BeartypeDecorPepException =
     [BeartypeDecorPepException,
      BeartypeDecorException,
      BeartypeException]"
  "superclasses BeartypeDecorHintPep563Exception =
     [BeartypeDecorHintPep563Exception,
      BeartypeDecorPepException,
      BeartypeDecorException,
      BeartypeException]"
  "superclasses BeartypeCallException =
     [BeartypeCallException,
      BeartypeException]"
  "superclasses BeartypeCallUnavailableTypeException =
     [BeartypeCallUnavailableTypeException,
      BeartypeCallException,
      BeartypeException]"
  "superclasses BeartypeCallHintException =
     [BeartypeCallHintException,
      BeartypeCallException,
      BeartypeException]"
  "superclasses BeartypeCallHintForwardRefException =
     [BeartypeCallHintForwardRefException,
      BeartypeCallHintException,
      BeartypeCallException,
      BeartypeException]"
  "superclasses BeartypeCallHintViolation =
     [BeartypeCallHintViolation,
      BeartypeCallHintException,
      BeartypeCallException,
      BeartypeException]"
  "superclasses BeartypeCallHintParamViolation =
     [BeartypeCallHintParamViolation,
      BeartypeCallHintViolation,
      BeartypeCallHintException,
      BeartypeCallException,
      BeartypeException]"
  "superclasses BeartypeCallHintReturnViolation =
     [BeartypeCallHintReturnViolation,
      BeartypeCallHintViolation,
      BeartypeCallHintException,
      BeartypeCallException,
      BeartypeException]"
  "superclasses BeartypeAbbyHintViolation =
     [BeartypeAbbyHintViolation,
      BeartypeCallHintViolation,
      BeartypeCallHintException,
      BeartypeCallException,
      BeartypeException]"
  "superclasses BeartypeClawException =
     [BeartypeClawException,
      BeartypeException]"
  "superclasses BeartypeClawRegistrationException =
     [BeartypeClawRegistrationException,
      BeartypeClawException,
      BeartypeException]"
  "superclasses BeartypeValeException =
     [BeartypeValeException,
      BeartypeException]"
  "superclasses BeartypeValeSubscriptionException =
     [BeartypeValeSubscriptionException,
      BeartypeValeException,
      BeartypeException]"
  "superclasses P_BeartypeDecorBeartypistryException =
     [P_BeartypeDecorBeartypistryException,
      BeartypeDecorException,
      BeartypeException]"
  "superclasses P_BeartypeUtilException =
     [P_BeartypeUtilException,
      BeartypeException]"
  "superclasses P_BeartypeUtilCallableException =
     [P_BeartypeUtilCallableException,
      P_BeartypeUtilException,
      BeartypeException]"
  "superclasses P_BeartypeUtilMappingException =
     [P_BeartypeUtilMappingException,
      P_BeartypeUtilException,
      BeartypeException]"
  "superclasses P_BeartypeUtilModuleException =
     [P_BeartypeUtilModuleException,
      P_BeartypeUtilException,
      BeartypeException]"
  "superclasses P_BeartypeUtilPathException =
     [P_BeartypeUtilPathException,
      P_BeartypeUtilException,
      BeartypeException]"
  "superclasses P_BeartypeUtilPythonException =
     [P_BeartypeUtilPythonException,
      P_BeartypeUtilException,
      BeartypeException]"
  "superclasses P_BeartypeUtilTextException =
     [P_BeartypeUtilTextException,
      P_BeartypeUtilException,
      BeartypeException]"
  "superclasses P_BeartypeUtilTypeException =
     [P_BeartypeUtilTypeException,
      P_BeartypeUtilException,
      BeartypeException]"
  "superclasses P_BeartypeCallHintRaiseException =
     [P_BeartypeCallHintRaiseException,
      P_BeartypeUtilException,
      BeartypeException]"
  "superclasses P_BeartypeCallHintPepRaiseException =
     [P_BeartypeCallHintPepRaiseException,
      P_BeartypeCallHintRaiseException,
      P_BeartypeUtilException,
      BeartypeException]"
  "superclasses P_BeartypeCallHintPepRaiseDesynchronizationException =
     [P_BeartypeCallHintPepRaiseDesynchronizationException,
      P_BeartypeCallHintPepRaiseException,
      P_BeartypeCallHintRaiseException,
      P_BeartypeUtilException,
      BeartypeException]"
  "superclasses P_BeartypeUtilCachedException =
     [P_BeartypeUtilCachedException,
      P_BeartypeUtilException,
      BeartypeException]"
  "superclasses P_BeartypeUtilCallableCachedException =
     [P_BeartypeUtilCallableCachedException,
      P_BeartypeUtilCachedException,
      P_BeartypeUtilException,
      BeartypeException]"
  "superclasses P_BeartypeUtilCacheLruException =
     [P_BeartypeUtilCacheLruException,
      P_BeartypeUtilCachedException,
      P_BeartypeUtilException,
      BeartypeException]"
  "superclasses P_BeartypeUtilCachedKeyPoolException =
     [P_BeartypeUtilCachedKeyPoolException,
      P_BeartypeUtilException,
      BeartypeException]"
  "superclasses P_BeartypeUtilCachedFixedListException =
     [P_BeartypeUtilCachedFixedListException,
      P_BeartypeUtilCachedException,
      P_BeartypeUtilException,
      BeartypeException]"
  "superclasses P_BeartypeUtilCachedObjectTypedException =
     [P_BeartypeUtilCachedObjectTypedException,
      P_BeartypeUtilCachedException,
      P_BeartypeUtilException,
      BeartypeException]"
  "superclasses P_BeartypeUtilObjectException =
     [P_BeartypeUtilObjectException,
      P_BeartypeUtilException,
      BeartypeException]"
  "superclasses P_BeartypeUtilObjectNameException =
     [P_BeartypeUtilObjectNameException,
      P_BeartypeUtilObjectException,
      P_BeartypeUtilException,
      BeartypeException]"
  by (simp_all add: superclasses.simps parents_def)

lemma call_branch_disjoint:
  assumes "c \<in> set (superclasses P_BeartypeCallHintPepRaiseDesynchronizationException)"
  shows "\<not> issubclass_exc c BeartypeCallException"
proof -
  from assms consider
      "c = P_BeartypeCallHintPepRaiseDesynchronizationException"
    | "c = P_BeartypeCallHintPepRaiseException"
    | "c = P_BeartypeCallHintRaiseException"
    | "c = P_BeartypeUtilException"
    | "c = BeartypeException"
    by (auto simp: superclasses_eval)
  then show ?thesis
  proof cases
    case 1
    show ?thesis unfolding 1 by (simp add: issubclass_exc_def superclasses_eval)
  next
    case 2
    show ?thesis unfolding 2 by (simp add: issubclass_exc_def superclasses_eval)
  next
    case 3
    show ?thesis unfolding 3 by (simp add: issubclass_exc_def superclasses_eval)
  next
    case 4
    show ?thesis unfolding 4 by (simp add: issubclass_exc_def superclasses_eval)
  next
    case 5
    show ?thesis unfolding 5 by (simp add: issubclass_exc_def superclasses_eval)
  qed
qed

lemma abstractmethods_empty: "abstractmethods c = []"
  by (cases c) (simp_all add: abstractmethods_def superclasses_eval namespace_def)

text \<open>
  Claim C3. The desynchronization exception is a private class below
  \<^verbatim>\<open>_BeartypeUtilException\<close>; it is not a subclass of
  \<^verbatim>\<open>BeartypeCallHintViolation\<close>, nor of any class of the call-time branch below
  \<^verbatim>\<open>BeartypeCallException\<close>.
\<close>

theorem desynchronization_is_internal:
  "issubclass_exc P_BeartypeCallHintPepRaiseDesynchronizationException P_BeartypeUtilException \<and>
   \<not> issubclass_exc P_BeartypeCallHintPepRaiseDesynchronizationException
       BeartypeCallHintViolation \<and>
   (\<forall>c. issubclass_exc c BeartypeCallException \<longrightarrow>
      \<not> issubclass_exc P_BeartypeCallHintPepRaiseDesynchronizationException c) \<and>
   hd (exc_name P_BeartypeCallHintPepRaiseDesynchronizationException) = CHR ''_''"
proof -
  have up: "issubclass_exc P_BeartypeCallHintPepRaiseDesynchronizationException
      P_BeartypeUtilException"
    by (simp add: issubclass_exc_def superclasses_eval)
  have branch: "\<not> issubclass_exc P_BeartypeCallHintPepRaiseDesynchronizationException c"
    if "issubclass_exc c BeartypeCallException" for c
    using that call_branch_disjoint [of c] unfolding issubclass_exc_def by blast
  have "issubclass_exc BeartypeCallHintViolation BeartypeCallException"
    by (simp add: issubclass_exc_def superclasses_eval)
  with branch have "\<not> issubclass_exc P_BeartypeCallHintPepRaiseDesynchronizationException
      BeartypeCallHintViolation"
    by blast
  with up branch show ?thesis by simp
qed

theorem desynchronization_is_internal_witness:
  "issubclass_exc BeartypeCallHintParamViolation BeartypeCallException \<and>
   \<not> issubclass_exc P_BeartypeCallHintPepRaiseDesynchronizationException
       BeartypeCallHintParamViolation"
proof -
  have "issubclass_exc BeartypeCallHintParamViolation BeartypeCallException"
    by (simp add: issubclass_exc_def superclasses_eval)
  with desynchronization_is_internal show ?thesis by blast
qed

text \<open>
  Claim C4. Every class of the module is a subclass of \<^verbatim>\<open>BeartypeException\<close> and
  names exactly one base. For the root that base is the builtin \<^verbatim>\<open>Exception\<close>; for
  every other class it is a class of the module, which is not in turn a subclass of its
  child.
\<close>

theorem taxonomy_tree:
  "issubclass_exc c BeartypeException \<and>
   length (bases c) = 1 \<and>
   (c \<noteq> BeartypeException \<longrightarrow>
      (\<exists>p. bases c = [Roar p] \<and> parents c = [p] \<and> \<not> issubclass_exc p c)) \<and>
   bases BeartypeException = [PyException] \<and>
   parents BeartypeException = []"
  by (cases c) (simp_all add: issubclass_exc_def superclasses_eval parents_def)

theorem taxonomy_tree_witness:
  "issubclass_exc BeartypeCallHintParamViolation BeartypeException \<and>
   parents BeartypeCallHintParamViolation = [BeartypeCallHintViolation] \<and>
   \<not> issubclass_exc BeartypeCallHintViolation BeartypeCallHintParamViolation"
  using taxonomy_tree [of BeartypeCallHintParamViolation]
  by (simp add: parents_def)

text \<open>
  Claim C5, as amended. No class of the module is barred from instantiation: none has an
  abstract method, so the call \<^verbatim>\<open>c(message)\<close> runs \<^verbatim>\<open>__init__\<close> and yields an
  instance for the root, for a class documented as abstract and for a leaf alike.
\<close>

theorem instantiate_always:
  "instantiate st c message =
     Inr (\<lparr>exc_cls = c, exc_args = [message]\<rparr>, st(c := ''beartype.roar''))"
  by (simp add: instantiate_def abstractmethods_empty exc_init_def)

text \<open>
  The claim as first stated fails at the root, which is documented as an abstract base
  class and has a class below it, yet is instantiated like any other.
\<close>

theorem instantiate_abstract_root:
  "documented_abstract BeartypeException \<and>
   parents BeartypeCaveException = [BeartypeException] \<and>
   instantiate roar_state0 BeartypeException ''message'' =
     Inr (\<lparr>exc_cls = BeartypeException, exc_args = [''message'']\<rparr>,
          roar_state0(BeartypeException := ''beartype.roar''))"
  by (simp add: instantiate_def abstractmethods_def superclasses_eval parents_def
      namespace_def exc_init_def)

section \<open>Properties of the object utilities\<close>


text \<open>
  Claim C10. \<^verbatim>\<open>get_object_name\<close> gives the same result on any two objects: the name
  of the builtin class \<^verbatim>\<open>object\<close>, qualified by whatever module name the getter
  reports for \<^verbatim>\<open>object\<close>. It is a returned string, never a raised exception, also
  on an object that has no \<^verbatim>\<open>__name__\<close>.
\<close>

theorem get_object_name_constant:
  "get_object_name gm a = get_object_name gm b \<and>
   get_object_name gm a =
     Inr (case gm object_builtin of Some m \<Rightarrow> m @ ''.object'' | None \<Rightarrow> ''object'') \<and>
   (\<forall>e. get_object_name gm a \<noteq> Inl e)"
  by (simp add: get_object_name_def object_builtin_def split: option.splits)

text \<open>
  Claim C8, as amended. Let \<open>cls\<close> pass the assertion. An object that fails
  \<^verbatim>\<open>isinstance(obj, type)\<close> gives \<open>False\<close> and nothing is raised, whatever
  \<open>cls\<close> is; for an object that passes it the outcome is that of
  \<^verbatim>\<open>issubclass(obj, cls)\<close>. Between two classes, \<open>cls\<close> keeping the
  \<^verbatim>\<open>__subclasscheck__\<close> of \<^verbatim>\<open>type\<close>, that outcome is a boolean, true exactly when
  \<open>cls\<close> is in the method resolution order of \<open>obj\<close>. For an object that passes the
  test only through its \<^verbatim>\<open>__class__\<close> attribute it is the \<^verbatim>\<open>TypeError\<close> of
  \<^verbatim>\<open>issubclass\<close> when the object has no tuple of bases, and otherwise whether
  \<open>cls\<close> is, or is above, one of those bases.
\<close>

theorem is_object_subclass_guarded:
  assumes "isinstance_type w cls"
  shows "(\<not> isinstance_type w obj \<longrightarrow> is_object_subclass w obj cls = Inr False) \<and>
         (isinstance_type w obj \<longrightarrow>
            is_object_subclass w obj cls = issubclass_builtin w obj cls) \<and>
         (\<forall>c d. obj = PyClass c \<and> cls = PyClass d \<and> subclasscheck (classes w d) = None \<longrightarrow>
            is_object_subclass w obj cls = Inr (d \<in> set (mro (classes w c)))) \<and>
         (\<forall>c i n k d. obj = PyInstance c i n k None \<and> isinstance_type w obj \<and>
              cls = PyClass d \<and> subclasscheck (classes w d) = None \<longrightarrow>
            is_object_subclass w obj cls =
              Inl (TypeError ''issubclass() arg 1 must be a class'')) \<and>
         (\<forall>c i n k bs d. obj = PyInstance c i n k (Some bs) \<and> isinstance_type w obj \<and>
              cls = PyClass d \<and> subclasscheck (classes w d) = None \<longrightarrow>
            is_object_subclass w obj cls =
              Inr (list_ex (\<lambda>b. d \<in> set (mro (classes w b))) bs))"
  using assms by (cases obj) (auto simp: is_object_subclass_def)

theorem is_object_subclass_guarded_witness:
  "is_object_subclass example_world (PyClass ''bool'') (PyClass ''int'') = Inr True \<and>
   is_object_subclass example_world (PyClass ''int'') (PyClass ''bool'') = Inr False \<and>
   is_object_subclass example_world (PyInstance ''int'' 7 None None None) (PyClass ''Generic'') =
     Inr False \<and>
   is_object_subclass example_world mock_type (PyClass ''int'') =
     Inl (TypeError ''issubclass() arg 1 must be a class'') \<and>
   is_object_subclass example_world fake_class (PyClass ''int'') = Inr True"
  using is_object_subclass_guarded [of example_world "PyClass ''int''" "PyClass ''bool''"]
    is_object_subclass_guarded [of example_world "PyClass ''bool''" "PyClass ''int''"]
    is_object_subclass_guarded
      [of example_world "PyClass ''Generic''" "PyInstance ''int'' 7 None None None"]
    is_object_subclass_guarded [of example_world "PyClass ''int''" mock_type]
    is_object_subclass_guarded [of example_world "PyClass ''int''" fake_class]
  by (simp add: example_world_def example_classes_def mock_type_def fake_class_def)

text \<open>
  The claim as first stated fails where the metaclass of \<open>cls\<close> raises from
  \<^verbatim>\<open>__subclasscheck__\<close>: both arguments are classes, the assertion passes, and the
  \<^verbatim>\<open>TypeError\<close> of the subclass check leaves the function. It fails as well on an
  object that is no class but reports one through \<^verbatim>\<open>__class__\<close>.
\<close>

theorem is_object_subclass_raises:
  "isinstance_type example_world (PyClass ''Generic'') \<and>
   is_object_subclass example_world (PyClass ''int'') (PyClass ''Generic'') =
     Inl (TypeError ''Parameterized generics cannot be used with class or instance checks'') \<and>
   isinstance_type example_world (PyClass ''int'') \<and>
   is_object_subclass example_world mock_type (PyClass ''int'') =
     Inl (TypeError ''issubclass() arg 1 must be a class'')"
  by (simp add: is_object_subclass_def example_world_def example_classes_def
      raising_subclasscheck_def mock_type_def)

section \<open>Properties of the origin getters\<close>









section \<open>Properties of the checked call\<close>









































end
